theory Spec2Isabelle
  imports Main
begin

section \<open>The door controller of motor.py\<close>

text \<open>
  A shallow embedding of \<^verbatim>\<open>motor.py\<close>: the state enumeration, the three pure
  policies (\<^verbatim>\<open>desired_state\<close>, \<^verbatim>\<open>transition_state\<close>, \<^verbatim>\<open>toggle_state\<close>),
  the motor driver and the \<^verbatim>\<open>Door\<close> aggregate with its private methods.

  Conventions.
  \<^item> The members of the Python enumeration are written with their qualified names,
    \<^verbatim>\<open>State.opening\<close> as \<open>State_opening\<close> (the bare words \<^verbatim>\<open>open\<close> and
    \<^verbatim>\<open>opening\<close> are reserved in theory text).
  \<^item> A Python variable that holds a state holds either a member of the enumeration or
    \<^verbatim>\<open>None\<close> (the class-level default of \<^verbatim>\<open>Door.state\<close>); it is a
    \<open>State option\<close>, and \<open>None\<close> is Python's \<^verbatim>\<open>None\<close>.
  \<^item> An exception is a value: a function that can raise returns \<open>exn + 'a\<close>, with
    \<open>Inl\<close> for the exception.
  \<^item> An instant (\<^verbatim>\<open>datetime\<close>) is an integer number of microseconds, the
    resolution of \<^verbatim>\<open>datetime\<close>; a \<^verbatim>\<open>timedelta\<close> is a number of microseconds too.
  \<^item> What a method reads from the outside world (the clock and the level of the two
    limit switches) is passed in as a record \<open>env\<close>.
\<close>

subsection \<open>States and exceptions\<close>

datatype State =
    State_opening
  | State_opening_stopped
  | State_open
  | State_closing
  | State_closing_stopped
  | State_closed
  | State_unknown
  | State_error

datatype exn = ValueError | NameError | TypeError

subsection \<open>Module constants\<close>

definition timedelta_seconds :: "int \<Rightarrow> int" where
  "timedelta_seconds n = n * 1000000"

definition DEFAULT_SLEEP :: nat where
  "DEFAULT_SLEEP = 10"

definition OPENING_THRESHOLD :: int where
  "OPENING_THRESHOLD = timedelta_seconds 2"

definition CLOSING_THRESHOLD :: int where
  "CLOSING_THRESHOLD = timedelta_seconds 2"

text \<open>
  \<^verbatim>\<open>Door.__set_open\<close> reads a global named \<^verbatim>\<open>CLOSING_THESHOLD\<close>. The module
  binds no such name (its imports bring in \<^verbatim>\<open>Enum\<close>, \<^verbatim>\<open>LED\<close>, \<^verbatim>\<open>Button\<close>,
  \<^verbatim>\<open>signal\<close>, \<^verbatim>\<open>sun\<close>, \<^verbatim>\<open>datetime\<close>, \<^verbatim>\<open>time\<close>, \<^verbatim>\<open>timedelta\<close> and
  \<^verbatim>\<open>sleep\<close> only, and it is no builtin), so evaluating the name raises
  \<^verbatim>\<open>NameError\<close>.
\<close>

definition CLOSING_THESHOLD :: "exn + int" where
  "CLOSING_THESHOLD = Inl NameError"

subsection \<open>Times of day and the desired state\<close>

text \<open>
  \<^verbatim>\<open>datetime.time\<close>: hour, minute, second and microsecond. Two times of day in the
  same zone are ordered as the tuples of their four fields.
\<close>

record time =
  hour :: nat
  minute :: nat
  second :: nat
  microsecond :: nat

definition time_less :: "time \<Rightarrow> time \<Rightarrow> bool" where
  "time_less a b =
     (hour a < hour b \<or>
      (hour a = hour b \<and>
       (minute a < minute b \<or>
        (minute a = minute b \<and>
         (second a < second b \<or>
          (second a = second b \<and> microsecond a < microsecond b))))))"

text \<open>
  \<^verbatim>\<open>desired_state()\<close> reads \<^verbatim>\<open>SUN.sunrise()\<close>, \<^verbatim>\<open>SUN.sunset()\<close> and the local
  time of day. The module \<^verbatim>\<open>sun\<close> is not part of the sources, so the three readings
  are parameters, all in the zone \<^verbatim>\<open>sun.TZ_LOCAL\<close>.
\<close>

definition desired_state :: "time \<Rightarrow> time \<Rightarrow> time \<Rightarrow> State" where
  "desired_state sunrise sunset now =
     (let rise = (if hour sunrise < 6
                  then \<lparr>hour = 6, minute = 0, second = 0, microsecond = 0\<rparr>
                  else sunrise)
      in if time_less rise now \<and> time_less now sunset then State_open else State_closed)"

subsection \<open>Transition and toggle\<close>

definition transition_state :: "State option \<Rightarrow> State option \<Rightarrow> exn + State option" where
  "transition_state actual desired =
     (if actual = Some State_error \<or> actual = desired then Inr actual
      else if desired = Some State_open then Inr (Some State_opening)
      else if desired = Some State_closed then Inr (Some State_closing)
      else Inl ValueError)"

definition toggle_state :: "State option \<Rightarrow> exn + State" where
  "toggle_state current =
     (if current = Some State_unknown \<or> current = Some State_error then Inr State_open
      else if current = Some State_opening then Inr State_opening_stopped
      else if current = Some State_opening_stopped \<or> current = Some State_open
        then Inr State_closed
      else if current = Some State_closing then Inr State_closing_stopped
      else if current = Some State_closing_stopped \<or> current = Some State_closed
        then Inr State_open
      else Inl ValueError)"

definition is_moving :: "State option \<Rightarrow> bool" where
  "is_moving s = (s = Some State_opening \<or> s = Some State_closing)"

subsection \<open>Indicator and motor\<close>

text \<open>
  The indicator is written and never read: its blink pattern is kept as the pair of the
  on time and the off time in milliseconds, \<open>None\<close> before the first call of
  \<^verbatim>\<open>blink\<close>. The four tests of \<^verbatim>\<open>blink\<close> run in sequence; at most one of them
  holds, and in the two stopped states none does, which leaves the pattern as it was.
\<close>

definition blink :: "(nat \<times> nat) option \<Rightarrow> State option \<Rightarrow> (nat \<times> nat) option" where
  "blink led s =
     (let led1 = (if s = Some State_opening \<or> s = Some State_closing
                  then Some (500, 100) else led);
          led2 = (if s = Some State_open \<or> s = Some State_closed
                  then Some (100, 10000) else led1);
          led3 = (if s = Some State_unknown then Some (1000, 1000) else led2)
      in if s = Some State_error then Some (100, 200) else led3)"

text \<open>
  \<^verbatim>\<open>Motor\<close>: the two attributes and the values of its two output pins, which
  \<^verbatim>\<open>__update\<close> derives from them.
\<close>

record Motor =
  running :: bool
  direction :: bool
  onoff_value :: bool
  dir_value :: bool

definition Motor_update :: "Motor \<Rightarrow> Motor" where
  "Motor_update m = m\<lparr>dir_value := (direction m \<and> running m), onoff_value := running m\<rparr>"

definition Motor_set_state :: "Motor \<Rightarrow> State option \<Rightarrow> Motor" where
  "Motor_set_state m s =
     Motor_update
       (m\<lparr>running := (s = Some State_opening \<or> s = Some State_closing),
          direction := (s = Some State_opening)\<rparr>)"

subsection \<open>The door\<close>

text \<open>
  \<^verbatim>\<open>Door\<close>. Its class attribute \<^verbatim>\<open>desired_state\<close> is never assigned or read by
  any method and is left out.
\<close>

record Door =
  state :: "State option"
  closing_started :: "int option"
  opening_started :: "int option"
  led :: "(nat \<times> nat) option"
  motor :: Motor

record env =
  datetime_now :: int
  upper_is_pressed :: bool
  lower_is_pressed :: bool

text \<open>
  \<^verbatim>\<open>now > started + threshold\<close>, where \<^verbatim>\<open>started\<close> may be \<^verbatim>\<open>None\<close>: adding a
  \<^verbatim>\<open>timedelta\<close> to \<^verbatim>\<open>None\<close> raises \<^verbatim>\<open>TypeError\<close>.
\<close>

definition elapsed :: "int \<Rightarrow> int option \<Rightarrow> int \<Rightarrow> exn + bool" where
  "elapsed t started threshold =
     (case started of
        None \<Rightarrow> Inl TypeError
      | Some t0 \<Rightarrow> Inr (t > t0 + threshold))"

text \<open>
  \<^verbatim>\<open>Door.__set_state\<close> and \<^verbatim>\<open>Door.__check_blocked\<close> call each other. Both return
  the door as they leave it and the number they return. One call reads the clock at
  most once.
\<close>

function set_state :: "env \<Rightarrow> Door \<Rightarrow> State option \<Rightarrow> exn + Door \<times> nat"
  and check_blocked :: "env \<Rightarrow> Door \<Rightarrow> exn + Door \<times> nat"
where
  "set_state e d s =
     (if state d = s then
        (if is_moving s then check_blocked e d else Inr (d, DEFAULT_SLEEP))
      else
        Inr (d\<lparr>opening_started := (if s = Some State_opening then Some (datetime_now e) else None),
               closing_started := (if s = Some State_closing then Some (datetime_now e) else None),
               state := s,
               led := blink (led d) s,
               motor := Motor_set_state (motor d) s\<rparr>, 0))"
| "check_blocked e d =
     (case (if state d = Some State_opening \<and> lower_is_pressed e
            then elapsed (datetime_now e) (opening_started d) OPENING_THRESHOLD else Inr False) of
        Inl x \<Rightarrow> Inl x
      | Inr blocked_opening \<Rightarrow>
          if blocked_opening then set_state e d (Some State_error)
          else
            (case (if state d = Some State_closing \<and> upper_is_pressed e
                   then elapsed (datetime_now e) (closing_started d) CLOSING_THRESHOLD else Inr False) of
               Inl x \<Rightarrow> Inl x
             | Inr blocked_closing \<Rightarrow>
                 if blocked_closing then set_state e d (Some State_error)
                 else Inr (d, 0)))"
  by pat_completeness auto
termination
  by (relation "measure (\<lambda>x. case x of
        Inl (e, d, s) \<Rightarrow> (if state d = s \<and> is_moving s then 2 else 0)
      | Inr (e, d) \<Rightarrow> 1)")
     (auto simp: is_moving_def)

declare set_state.simps [simp del]
declare check_blocked.simps [simp del]

text \<open>
  The class-level defaults, and \<^verbatim>\<open>Door.__init__\<close>: the first state comes from the
  level of the two limit switches.
\<close>

definition Door_defaults :: Door where
  "Door_defaults =
     \<lparr>state = None, closing_started = None, opening_started = None, led = None,
      motor = \<lparr>running = False, direction = False, onoff_value = False, dir_value = False\<rparr>\<rparr>"

definition Door_init :: "env \<Rightarrow> exn + Door \<times> nat" where
  "Door_init e =
     set_state e Door_defaults
       (if upper_is_pressed e then Some State_open
        else if lower_is_pressed e then Some State_closed
        else Some State_unknown)"

text \<open>
  \<^verbatim>\<open>Door.__set_desired\<close>: the loop runs while the state differs from the desired
  one, and nothing bounds its rounds. Each round takes one reading of the outside world
  from the list; \<open>None\<close> says that the readings ran out with the loop still running.
\<close>

fun set_desired :: "env list \<Rightarrow> Door \<Rightarrow> State option \<Rightarrow> (exn + Door) option" where
  "set_desired es d desired =
     (if state d = desired then Some (Inr d)
      else
        (case transition_state (state d) desired of
           Inl x \<Rightarrow> Some (Inl x)
         | Inr s \<Rightarrow>
             (case es of
                [] \<Rightarrow> None
              | e # es' \<Rightarrow>
                  (case set_state e d s of
                     Inl x \<Rightarrow> Some (Inl x)
                   | Inr (d', r) \<Rightarrow>
                       if state d' = Some State_error then Some (Inr d')
                       else set_desired es' d' desired))))"

declare set_desired.simps [simp del]

text \<open>\<^verbatim>\<open>Door.__toggle\<close>, the handler of the button.\<close>

definition toggle :: "env list \<Rightarrow> Door \<Rightarrow> (exn + Door) option" where
  "toggle es d =
     (case toggle_state (state d) of
        Inl x \<Rightarrow> Some (Inl x)
      | Inr s \<Rightarrow> set_desired es d (Some s))"

text \<open>
  \<^verbatim>\<open>Door.__set_open\<close> and \<^verbatim>\<open>Door.__set_closed\<close>, the handlers of the upper and of
  the lower limit switch. In the comparison the right operand is evaluated from the
  left: the attribute, then the global name, then the sum.
\<close>

definition set_open :: "env \<Rightarrow> Door \<Rightarrow> exn + Door" where
  "set_open e d =
     (if state d = Some State_closing then
        (case CLOSING_THESHOLD of
           Inl x \<Rightarrow> Inl x
         | Inr threshold \<Rightarrow>
             (case elapsed (datetime_now e) (closing_started d) threshold of
                Inl x \<Rightarrow> Inl x
              | Inr late \<Rightarrow>
                  if late then map_sum id fst (set_state e d (Some State_error))
                  else Inr d))
      else map_sum id fst (set_state e d (Some State_open)))"

definition set_closed :: "env \<Rightarrow> Door \<Rightarrow> exn + Door" where
  "set_closed e d =
     (if state d = Some State_opening then
        (case elapsed (datetime_now e) (opening_started d) OPENING_THRESHOLD of
           Inl x \<Rightarrow> Inl x
         | Inr late \<Rightarrow>
             if late then map_sum id fst (set_state e d (Some State_error))
             else Inr d)
      else map_sum id fst (set_state e d (Some State_closed)))"

subsection \<open>The timestamp invariant\<close>

definition timestamps_ok :: "Door \<Rightarrow> bool" where
  "timestamps_ok d =
     (((opening_started d \<noteq> None) = (state d = Some State_opening)) \<and>
      ((closing_started d \<noteq> None) = (state d = Some State_closing)) \<and>
      \<not> (opening_started d \<noteq> None \<and> closing_started d \<noteq> None))"

subsection \<open>The doors a run can build\<close>

text \<open>
  The four attributes of a door are written by \<^verbatim>\<open>__set_state\<close> only, and the first
  call is the constructor's: the doors of a run are those that calls of
  \<^verbatim>\<open>__set_state\<close> build from the class-level defaults.
\<close>

inductive reachable :: "Door \<Rightarrow> bool" where
  reachable_init: "Door_init e = Inr (d, r) \<Longrightarrow> reachable d"
| reachable_step: "reachable d \<Longrightarrow> set_state e d s = Inr (d', r) \<Longrightarrow> reachable d'"

subsection \<open>The desired-state policy as the specification words it\<close>

text \<open>
  The reference that \<^verbatim>\<open>desired_state\<close> is compared with: a sunrise whose hour is
  earlier than six is replaced by 06:00, any other sunrise is used as it is; the door is
  to be open when the time of day is strictly between that sunrise and the sunset, and
  closed otherwise.
\<close>

definition six_o_clock :: time where
  "six_o_clock = \<lparr>hour = 6, minute = 0, second = 0, microsecond = 0\<rparr>"

definition effective_sunrise :: "time \<Rightarrow> time" where
  "effective_sunrise sunrise = (if hour sunrise < 6 then six_o_clock else sunrise)"

definition desired_state_policy :: "time \<Rightarrow> time \<Rightarrow> time \<Rightarrow> State" where
  "desired_state_policy sunrise sunset now =
     (if time_less (effective_sunrise sunrise) now \<and> time_less now sunset
      then State_open else State_closed)"

section \<open>Properties\<close>

subsection \<open>The enumeration is closed\<close>

lemma State_UNIV:
  "(UNIV :: State set) =
     {State_opening, State_opening_stopped, State_open, State_closing,
      State_closing_stopped, State_closed, State_unknown, State_error}"
proof -
  have "s \<in> {State_opening, State_opening_stopped, State_open, State_closing,
      State_closing_stopped, State_closed, State_unknown, State_error}" for s
    by (cases s) simp_all
  then show ?thesis by blast
qed

subsection \<open>The toggle policy\<close>

text \<open>
  C8. \<^verbatim>\<open>toggle_state\<close> returns on each of the eight states, with the value the table
  gives: unknown and error to open, opening to opening_stopped, opening_stopped and open
  to closed, closing to closing_stopped, closing_stopped and closed to open. From open
  one press requests closed, not open; a second press, from closed, requests open.
\<close>

theorem toggle_state_table:
  "toggle_state (Some State_unknown) = Inr State_open \<and>
   toggle_state (Some State_error) = Inr State_open \<and>
   toggle_state (Some State_opening) = Inr State_opening_stopped \<and>
   toggle_state (Some State_opening_stopped) = Inr State_closed \<and>
   toggle_state (Some State_open) = Inr State_closed \<and>
   toggle_state (Some State_closing) = Inr State_closing_stopped \<and>
   toggle_state (Some State_closing_stopped) = Inr State_open \<and>
   toggle_state (Some State_closed) = Inr State_open \<and>
   (\<forall>s. \<exists>r. toggle_state (Some s) = Inr r) \<and>
   toggle_state (Some State_open) \<noteq> Inr State_open \<and>
   (case toggle_state (Some State_open) of
      Inl x \<Rightarrow> Inl x
    | Inr s \<Rightarrow> toggle_state (Some s)) = Inr State_open"
proof -
  have total: "\<exists>r. toggle_state (Some s) = Inr r" for s
    by (cases s) (simp_all add: toggle_state_def)
  then show ?thesis
    by (simp add: toggle_state_def)
qed

text \<open>
  C10. Whenever \<^verbatim>\<open>toggle_state\<close> returns, it returns open, closed, opening_stopped
  or closing_stopped: a press of the button never requests unknown or error.
\<close>

theorem toggle_state_requests:
  assumes "toggle_state current = Inr nxt"
  shows "nxt \<in> {State_open, State_closed, State_opening_stopped, State_closing_stopped} \<and>
         nxt \<noteq> State_unknown \<and> nxt \<noteq> State_error"
  using assms by (auto simp: toggle_state_def split: if_splits)

theorem toggle_state_requests_witness:
  "toggle_state (Some State_opening) = Inr State_opening_stopped \<and>
   State_opening_stopped \<in>
     {State_open, State_closed, State_opening_stopped, State_closing_stopped} \<and>
   State_opening_stopped \<noteq> State_unknown \<and> State_opening_stopped \<noteq> State_error"
proof -
  have h: "toggle_state (Some State_opening) = Inr State_opening_stopped"
    by (simp add: toggle_state_def)
  from toggle_state_requests [OF h] h show ?thesis by simp
qed

subsection \<open>Contract violations\<close>

text \<open>
  C3. \<^verbatim>\<open>transition_state\<close> raises exactly when the actual state is not error, differs
  from the desired one, and the desired one is neither open nor closed; what it raises
  is \<^verbatim>\<open>ValueError\<close>. \<^verbatim>\<open>toggle_state\<close> raises exactly when its argument is none of
  the eight members of the enumeration (so on \<^verbatim>\<open>None\<close>), and never on a member.
\<close>

theorem contract_violations:
  "isl (transition_state actual desired) =
     (actual \<noteq> Some State_error \<and> actual \<noteq> desired \<and>
      desired \<noteq> Some State_open \<and> desired \<noteq> Some State_closed) \<and>
   (transition_state actual desired = Inl ValueError) = isl (transition_state actual desired) \<and>
   isl (toggle_state current) =
     (current \<notin> Some ` {State_opening, State_opening_stopped, State_open, State_closing,
        State_closing_stopped, State_closed, State_unknown, State_error}) \<and>
   (toggle_state current = Inl ValueError) = isl (toggle_state current) \<and>
   (\<forall>s. \<not> isl (toggle_state (Some s)))"
proof -
  have member: "isl (toggle_state (Some s)) = False" for s
    by (cases s) (simp_all add: toggle_state_def)
  have none: "isl (toggle_state None)"
    by (simp add: toggle_state_def)
  have "isl (toggle_state current) = (current = None)"
    using member none by (cases current) simp_all
  moreover have "(current = None) =
     (current \<notin> Some ` {State_opening, State_opening_stopped, State_open, State_closing,
        State_closing_stopped, State_closed, State_unknown, State_error})"
    unfolding State_UNIV [symmetric] by (cases current) auto
  moreover have "(toggle_state current = Inl ValueError) = isl (toggle_state current)"
    by (simp add: toggle_state_def)
  moreover have "isl (transition_state actual desired) =
     (actual \<noteq> Some State_error \<and> actual \<noteq> desired \<and>
      desired \<noteq> Some State_open \<and> desired \<noteq> Some State_closed)"
    by (simp add: transition_state_def)
  moreover have
    "(transition_state actual desired = Inl ValueError) = isl (transition_state actual desired)"
    by (simp add: transition_state_def)
  ultimately show ?thesis using member by simp
qed

subsection \<open>The transition step\<close>

text \<open>
  C4. \<^verbatim>\<open>transition_state\<close> against its reference description: when the actual state
  is error or equals the desired one, the actual state is returned as it is; when open is
  desired and the actual state is neither error nor open, opening is returned; when closed
  is desired and the actual state is neither error nor closed, closing is returned.
\<close>

theorem transition_state_reference:
  "(actual = Some State_error \<or> actual = desired \<longrightarrow>
      transition_state actual desired = Inr actual) \<and>
   (actual \<noteq> Some State_error \<and> actual \<noteq> Some State_open \<and> desired = Some State_open \<longrightarrow>
      transition_state actual desired = Inr (Some State_opening)) \<and>
   (actual \<noteq> Some State_error \<and> actual \<noteq> Some State_closed \<and> desired = Some State_closed \<longrightarrow>
      transition_state actual desired = Inr (Some State_closing))"
  by (simp add: transition_state_def)

theorem transition_state_reference_witness:
  "transition_state (Some State_error) (Some State_open) = Inr (Some State_error) \<and>
   transition_state (Some State_opening_stopped) (Some State_opening_stopped) =
     Inr (Some State_opening_stopped) \<and>
   transition_state (Some State_closing) (Some State_open) = Inr (Some State_opening) \<and>
   transition_state (Some State_unknown) (Some State_closed) = Inr (Some State_closing)"
  using transition_state_reference [of "Some State_error" "Some State_open"]
    transition_state_reference [of "Some State_opening_stopped" "Some State_opening_stopped"]
    transition_state_reference [of "Some State_closing" "Some State_open"]
    transition_state_reference [of "Some State_unknown" "Some State_closed"]
  by simp

subsection \<open>The desired state\<close>

text \<open>
  C7. \<^verbatim>\<open>desired_state\<close> is the policy of the specification: the sunrise it uses is
  06:00 when the hour of the astronomical sunrise is earlier than six and the
  astronomical sunrise otherwise, and it answers open when the time of day is strictly
  between that sunrise and the sunset, closed otherwise.
\<close>

theorem desired_state_refines_policy:
  "desired_state sunrise sunset now = desired_state_policy sunrise sunset now"
  by (simp add: desired_state_def desired_state_policy_def effective_sunrise_def
      six_o_clock_def)

text \<open>
  The sunrises of the specification's examples, seen through the result: with a sunrise of
  05:30 the door is closed at 05:45 and at 06:00 sharp and open one microsecond later;
  with a sunrise of 07:00 it is closed at 06:30 and open at 07:00:01; at sunset it is
  closed.
\<close>

lemma desired_state_examples:
  "desired_state \<lparr>hour = 5, minute = 30, second = 0, microsecond = 0\<rparr>
     \<lparr>hour = 21, minute = 0, second = 0, microsecond = 0\<rparr>
     \<lparr>hour = 5, minute = 45, second = 0, microsecond = 0\<rparr> = State_closed"
  "desired_state \<lparr>hour = 5, minute = 30, second = 0, microsecond = 0\<rparr>
     \<lparr>hour = 21, minute = 0, second = 0, microsecond = 0\<rparr>
     \<lparr>hour = 6, minute = 0, second = 0, microsecond = 0\<rparr> = State_closed"
  "desired_state \<lparr>hour = 5, minute = 30, second = 0, microsecond = 0\<rparr>
     \<lparr>hour = 21, minute = 0, second = 0, microsecond = 0\<rparr>
     \<lparr>hour = 6, minute = 0, second = 0, microsecond = 1\<rparr> = State_open"
  "desired_state \<lparr>hour = 7, minute = 0, second = 0, microsecond = 0\<rparr>
     \<lparr>hour = 21, minute = 0, second = 0, microsecond = 0\<rparr>
     \<lparr>hour = 6, minute = 30, second = 0, microsecond = 0\<rparr> = State_closed"
  "desired_state \<lparr>hour = 7, minute = 0, second = 0, microsecond = 0\<rparr>
     \<lparr>hour = 21, minute = 0, second = 0, microsecond = 0\<rparr>
     \<lparr>hour = 7, minute = 0, second = 1, microsecond = 0\<rparr> = State_open"
  "desired_state \<lparr>hour = 7, minute = 0, second = 0, microsecond = 0\<rparr>
     \<lparr>hour = 21, minute = 0, second = 0, microsecond = 0\<rparr>
     \<lparr>hour = 21, minute = 0, second = 0, microsecond = 0\<rparr> = State_closed"
  by (simp_all add: desired_state_def time_less_def)

text \<open>No opening is scheduled before 06:00.\<close>

lemma desired_state_floor:
  assumes "desired_state sunrise sunset now = State_open"
  shows "6 \<le> hour now"
  using assms
  by (auto simp: desired_state_def time_less_def Let_def split: if_splits)

subsection \<open>Setting the state\<close>

text \<open>The three paths of \<^verbatim>\<open>__set_state\<close>, and the cases of \<^verbatim>\<open>__check_blocked\<close>.\<close>

lemma set_state_changes:
  assumes "state d \<noteq> s"
  shows "set_state e d s =
     Inr (d\<lparr>opening_started := (if s = Some State_opening then Some (datetime_now e) else None),
            closing_started := (if s = Some State_closing then Some (datetime_now e) else None),
            state := s,
            led := blink (led d) s,
            motor := Motor_set_state (motor d) s\<rparr>, 0)"
  using assms by (simp add: set_state.simps)

lemma set_state_stable:
  assumes "state d = s" and "\<not> is_moving s"
  shows "set_state e d s = Inr (d, DEFAULT_SLEEP)"
  using assms by (simp add: set_state.simps)

lemma set_state_moving:
  assumes "state d = s" and "is_moving s"
  shows "set_state e d s = check_blocked e d"
  using assms by (simp add: set_state.simps)

lemma set_state_error_from_moving:
  assumes "is_moving (state d)"
  shows "\<exists>d'. set_state e d (Some State_error) = Inr (d', 0) \<and>
     state d' = Some State_error \<and> opening_started d' = None \<and> closing_started d' = None \<and>
     \<not> running (motor d')"
proof -
  from assms have "state d \<noteq> Some State_error"
    by (auto simp: is_moving_def)
  then show ?thesis
    by (simp add: set_state_changes Motor_set_state_def Motor_update_def)
qed

lemma check_blocked_opening:
  assumes "state d = Some State_opening" and "lower_is_pressed e"
    and "opening_started d = Some t0"
  shows "check_blocked e d =
     (if datetime_now e > t0 + OPENING_THRESHOLD then set_state e d (Some State_error)
      else Inr (d, 0))"
  using assms by (simp add: check_blocked.simps elapsed_def)

lemma check_blocked_closing:
  assumes "state d = Some State_closing" and "upper_is_pressed e"
    and "closing_started d = Some t0"
  shows "check_blocked e d =
     (if datetime_now e > t0 + CLOSING_THRESHOLD then set_state e d (Some State_error)
      else Inr (d, 0))"
  using assms by (simp add: check_blocked.simps elapsed_def)

lemma check_blocked_idle:
  assumes "\<not> is_moving (state d)"
  shows "check_blocked e d = Inr (d, 0)"
  using assms by (simp add: check_blocked.simps is_moving_def)

lemma check_blocked_released:
  assumes "state d = Some State_opening \<longrightarrow> \<not> lower_is_pressed e"
    and "state d = Some State_closing \<longrightarrow> \<not> upper_is_pressed e"
  shows "check_blocked e d = Inr (d, 0)"
  using assms by (auto simp add: check_blocked.simps)

lemma set_state_lands:
  assumes "\<not> is_moving s"
  shows "\<exists>d' r. set_state e d s = Inr (d', r) \<and> state d' = s"
proof (cases "state d = s")
  case True
  with assms show ?thesis by (simp add: set_state_stable)
next
  case False
  then show ?thesis by (simp add: set_state_changes)
qed

subsection \<open>Blocked detection\<close>

text \<open>
  C5. \<^verbatim>\<open>__check_blocked\<close> on a door that is opening, with the lower limit switch
  asserted: the state becomes error when the clock is strictly later than
  \<^verbatim>\<open>opening_started\<close> plus two seconds, and the door is left as it is at that instant
  or before. The same holds of a closing door, the upper limit switch and
  \<^verbatim>\<open>closing_started\<close>. On a door that is not moving the check changes nothing.
\<close>

theorem check_blocked_threshold:
  "(state d = Some State_opening \<and> lower_is_pressed e \<and> opening_started d = Some t0 \<longrightarrow>
      (if datetime_now e > t0 + timedelta_seconds 2
       then \<exists>d'. check_blocked e d = Inr (d', 0) \<and> state d' = Some State_error
       else check_blocked e d = Inr (d, 0))) \<and>
   (state d = Some State_closing \<and> upper_is_pressed e \<and> closing_started d = Some t0 \<longrightarrow>
      (if datetime_now e > t0 + timedelta_seconds 2
       then \<exists>d'. check_blocked e d = Inr (d', 0) \<and> state d' = Some State_error
       else check_blocked e d = Inr (d, 0))) \<and>
   (\<not> is_moving (state d) \<longrightarrow> check_blocked e d = Inr (d, 0))"
proof (intro conjI impI)
  assume a: "state d = Some State_opening \<and> lower_is_pressed e \<and> opening_started d = Some t0"
  then have m: "is_moving (state d)" by (simp add: is_moving_def)
  from a have "check_blocked e d =
     (if datetime_now e > t0 + OPENING_THRESHOLD then set_state e d (Some State_error) else Inr (d, 0))"
    by (simp add: check_blocked_opening)
  with set_state_error_from_moving [OF m, of e]
  show "if datetime_now e > t0 + timedelta_seconds 2
       then \<exists>d'. check_blocked e d = Inr (d', 0) \<and> state d' = Some State_error
       else check_blocked e d = Inr (d, 0)"
    by (auto simp: OPENING_THRESHOLD_def)
next
  assume a: "state d = Some State_closing \<and> upper_is_pressed e \<and> closing_started d = Some t0"
  then have m: "is_moving (state d)" by (simp add: is_moving_def)
  from a have "check_blocked e d =
     (if datetime_now e > t0 + CLOSING_THRESHOLD then set_state e d (Some State_error) else Inr (d, 0))"
    by (simp add: check_blocked_closing)
  with set_state_error_from_moving [OF m, of e]
  show "if datetime_now e > t0 + timedelta_seconds 2
       then \<exists>d'. check_blocked e d = Inr (d', 0) \<and> state d' = Some State_error
       else check_blocked e d = Inr (d, 0)"
    by (auto simp: CLOSING_THRESHOLD_def)
next
  assume "\<not> is_moving (state d)"
  then show "check_blocked e d = Inr (d, 0)" by (rule check_blocked_idle)
qed

theorem check_blocked_threshold_witness:
  "(\<exists>d'. check_blocked \<lparr>datetime_now = 2000001, upper_is_pressed = False, lower_is_pressed = True\<rparr>
       (Door_defaults\<lparr>state := Some State_opening, opening_started := Some 0\<rparr>) = Inr (d', 0) \<and>
       state d' = Some State_error) \<and>
   check_blocked \<lparr>datetime_now = 2000000, upper_is_pressed = False, lower_is_pressed = True\<rparr>
       (Door_defaults\<lparr>state := Some State_opening, opening_started := Some 0\<rparr>) =
     Inr (Door_defaults\<lparr>state := Some State_opening, opening_started := Some 0\<rparr>, 0) \<and>
   (\<exists>d'. check_blocked \<lparr>datetime_now = 2000001, upper_is_pressed = True, lower_is_pressed = False\<rparr>
       (Door_defaults\<lparr>state := Some State_closing, closing_started := Some 0\<rparr>) = Inr (d', 0) \<and>
       state d' = Some State_error) \<and>
   check_blocked \<lparr>datetime_now = 2000000, upper_is_pressed = True, lower_is_pressed = False\<rparr>
       (Door_defaults\<lparr>state := Some State_closing, closing_started := Some 0\<rparr>) =
     Inr (Door_defaults\<lparr>state := Some State_closing, closing_started := Some 0\<rparr>, 0) \<and>
   check_blocked \<lparr>datetime_now = 2000001, upper_is_pressed = True, lower_is_pressed = True\<rparr>
       (Door_defaults\<lparr>state := Some State_open\<rparr>) =
     Inr (Door_defaults\<lparr>state := Some State_open\<rparr>, 0)"
  using
    check_blocked_threshold [of "Door_defaults\<lparr>state := Some State_opening, opening_started := Some 0\<rparr>"
      "\<lparr>datetime_now = 2000001, upper_is_pressed = False, lower_is_pressed = True\<rparr>" 0]
    check_blocked_threshold [of "Door_defaults\<lparr>state := Some State_opening, opening_started := Some 0\<rparr>"
      "\<lparr>datetime_now = 2000000, upper_is_pressed = False, lower_is_pressed = True\<rparr>" 0]
    check_blocked_threshold [of "Door_defaults\<lparr>state := Some State_closing, closing_started := Some 0\<rparr>"
      "\<lparr>datetime_now = 2000001, upper_is_pressed = True, lower_is_pressed = False\<rparr>" 0]
    check_blocked_threshold [of "Door_defaults\<lparr>state := Some State_closing, closing_started := Some 0\<rparr>"
      "\<lparr>datetime_now = 2000000, upper_is_pressed = True, lower_is_pressed = False\<rparr>" 0]
    check_blocked_threshold [of "Door_defaults\<lparr>state := Some State_open\<rparr>"
      "\<lparr>datetime_now = 2000001, upper_is_pressed = True, lower_is_pressed = True\<rparr>" 0]
  by (simp add: timedelta_seconds_def is_moving_def)

subsection \<open>The handler of the lower limit switch\<close>

text \<open>
  C9. \<^verbatim>\<open>__set_closed\<close> on a door that is opening: the state becomes error when the
  clock is strictly later than \<^verbatim>\<open>opening_started\<close> plus two seconds, and nothing is
  done otherwise. On a door in any other state the state becomes closed.
\<close>

theorem set_closed_handler:
  "(state d = Some State_opening \<and> opening_started d = Some t0 \<longrightarrow>
      (if datetime_now e > t0 + timedelta_seconds 2
       then \<exists>d'. set_closed e d = Inr d' \<and> state d' = Some State_error
       else set_closed e d = Inr d)) \<and>
   (state d \<noteq> Some State_opening \<longrightarrow>
      (\<exists>d'. set_closed e d = Inr d' \<and> state d' = Some State_closed))"
proof (intro conjI impI)
  assume a: "state d = Some State_opening \<and> opening_started d = Some t0"
  then have m: "is_moving (state d)" by (simp add: is_moving_def)
  from a set_state_error_from_moving [OF m, of e]
  show "if datetime_now e > t0 + timedelta_seconds 2
       then \<exists>d'. set_closed e d = Inr d' \<and> state d' = Some State_error
       else set_closed e d = Inr d"
    by (auto simp: set_closed_def elapsed_def OPENING_THRESHOLD_def)
next
  assume a: "state d \<noteq> Some State_opening"
  have "\<not> is_moving (Some State_closed)" by (simp add: is_moving_def)
  from set_state_lands [OF this, of e d] a
  show "\<exists>d'. set_closed e d = Inr d' \<and> state d' = Some State_closed"
    by (auto simp: set_closed_def)
qed

theorem set_closed_handler_witness:
  "(\<exists>d'. set_closed \<lparr>datetime_now = 2100000, upper_is_pressed = False, lower_is_pressed = True\<rparr>
       (Door_defaults\<lparr>state := Some State_opening, opening_started := Some 0\<rparr>) = Inr d' \<and>
       state d' = Some State_error) \<and>
   set_closed \<lparr>datetime_now = 500000, upper_is_pressed = False, lower_is_pressed = True\<rparr>
       (Door_defaults\<lparr>state := Some State_opening, opening_started := Some 0\<rparr>) =
     Inr (Door_defaults\<lparr>state := Some State_opening, opening_started := Some 0\<rparr>) \<and>
   (\<exists>d'. set_closed \<lparr>datetime_now = 500000, upper_is_pressed = False, lower_is_pressed = True\<rparr>
       (Door_defaults\<lparr>state := Some State_closing, closing_started := Some 0\<rparr>) = Inr d' \<and>
       state d' = Some State_closed)"
  using
    set_closed_handler [of "Door_defaults\<lparr>state := Some State_opening, opening_started := Some 0\<rparr>" 0
      "\<lparr>datetime_now = 2100000, upper_is_pressed = False, lower_is_pressed = True\<rparr>"]
    set_closed_handler [of "Door_defaults\<lparr>state := Some State_opening, opening_started := Some 0\<rparr>" 0
      "\<lparr>datetime_now = 500000, upper_is_pressed = False, lower_is_pressed = True\<rparr>"]
    set_closed_handler [of "Door_defaults\<lparr>state := Some State_closing, closing_started := Some 0\<rparr>" 0
      "\<lparr>datetime_now = 500000, upper_is_pressed = False, lower_is_pressed = True\<rparr>"]
  by (simp add: timedelta_seconds_def)

subsection \<open>The timestamps\<close>

lemma set_state_timestamps:
  assumes "timestamps_ok d \<or> state d \<noteq> s"
  shows "\<exists>d' r. set_state e d s = Inr (d', r) \<and> timestamps_ok d'"
proof (cases "state d = s")
  case False
  then show ?thesis
    by (simp add: set_state_changes timestamps_ok_def)
next
  case True
  with assms have ok: "timestamps_ok d" by simp
  show ?thesis
  proof (cases "is_moving s")
    case False
    with True ok show ?thesis by (simp add: set_state_stable)
  next
    case True
    have err: "\<exists>d'. set_state e d (Some State_error) = Inr (d', 0) \<and> timestamps_ok d'"
      using set_state_error_from_moving [of d e] True \<open>state d = s\<close>
      by (auto simp: timestamps_ok_def)
    have cb: "\<exists>d' r. check_blocked e d = Inr (d', r) \<and> timestamps_ok d'"
    proof (cases "state d = Some State_opening")
      case o: True
      with ok obtain t0 where t0: "opening_started d = Some t0"
        by (auto simp: timestamps_ok_def)
      show ?thesis
      proof (cases "lower_is_pressed e")
        case True
        with o t0 err ok show ?thesis
          by (auto simp: check_blocked_opening)
      next
        case False
        with o ok show ?thesis by (simp add: check_blocked_released)
      qed
    next
      case no: False
      with True \<open>state d = s\<close> have c: "state d = Some State_closing"
        by (simp add: is_moving_def)
      with ok obtain t0 where t0: "closing_started d = Some t0"
        by (auto simp: timestamps_ok_def)
      show ?thesis
      proof (cases "upper_is_pressed e")
        case True
        with c t0 err ok show ?thesis
          by (auto simp: check_blocked_closing)
      next
        case False
        with c ok show ?thesis by (simp add: check_blocked_released)
      qed
    qed
    with True \<open>state d = s\<close> show ?thesis by (simp add: set_state_moving)
  qed
qed

lemma Door_defaults_timestamps: "timestamps_ok Door_defaults"
  by (simp add: timestamps_ok_def Door_defaults_def)

lemma reachable_timestamps: "reachable d \<Longrightarrow> timestamps_ok d"
proof (induction rule: reachable.induct)
  case (reachable_init e d r)
  define s0 where "s0 = (if upper_is_pressed e then Some State_open
        else if lower_is_pressed e then Some State_closed
        else Some State_unknown)"
  from reachable_init have run: "set_state e Door_defaults s0 = Inr (d, r)"
    by (simp add: Door_init_def s0_def)
  from set_state_timestamps [OF disjI1 [OF Door_defaults_timestamps], of e s0]
  obtain d' r' where "set_state e Door_defaults s0 = Inr (d', r')" and "timestamps_ok d'"
    by blast
  with run show ?case by simp
next
  case (reachable_step d e s d' r)
  then show ?case
    using set_state_timestamps [OF disjI1, of d e s] by auto
qed

lemma reachable_set_state_returns:
  "reachable d \<Longrightarrow> \<exists>d' r. set_state e d s = Inr (d', r) \<and> reachable d'"
  using set_state_timestamps [OF disjI1 [OF reachable_timestamps], of d e s]
  by (auto intro: reachable_step)

text \<open>
  C6. After a call of \<^verbatim>\<open>__set_state\<close>, \<^verbatim>\<open>opening_started\<close> is set exactly when the
  state of the door is opening, \<^verbatim>\<open>closing_started\<close> is set exactly when it is closing,
  and the two are never both set. The call may start from any door that has this property
  already, or whose state differs from the one asked for. The class-level defaults have
  the property (\<open>Door_defaults_timestamps\<close>), and so has every door that a run builds
  from them (\<open>reachable_timestamps\<close>), so this covers every call of a run; on such a
  door the call returns and raises nothing.
\<close>

theorem set_state_timestamp_invariant:
  assumes "timestamps_ok d \<or> state d \<noteq> s"
  shows "\<exists>d' r. set_state e d s = Inr (d', r) \<and>
     ((opening_started d' \<noteq> None) = (state d' = Some State_opening)) \<and>
     ((closing_started d' \<noteq> None) = (state d' = Some State_closing)) \<and>
     \<not> (opening_started d' \<noteq> None \<and> closing_started d' \<noteq> None)"
  using set_state_timestamps [OF assms, of e] by (simp add: timestamps_ok_def)

theorem set_state_timestamp_invariant_witness:
  "(timestamps_ok Door_defaults \<or> state Door_defaults \<noteq> Some State_opening) \<and>
   (\<exists>d' r. set_state \<lparr>datetime_now = 7, upper_is_pressed = False, lower_is_pressed = True\<rparr>
        Door_defaults (Some State_opening) = Inr (d', r) \<and>
      ((opening_started d' \<noteq> None) = (state d' = Some State_opening)) \<and>
      ((closing_started d' \<noteq> None) = (state d' = Some State_closing)) \<and>
      \<not> (opening_started d' \<noteq> None \<and> closing_started d' \<noteq> None))"
proof -
  have h: "timestamps_ok Door_defaults \<or> state Door_defaults \<noteq> Some State_opening"
    by (simp add: Door_defaults_def)
  from h set_state_timestamp_invariant [OF h] show ?thesis by blast
qed

subsection \<open>The button while the door moves\<close>

text \<open>
  C1. What a press of the button does on a door that is opening: \<^verbatim>\<open>toggle_state\<close>
  answers opening_stopped, and the first round of the loop of \<^verbatim>\<open>__set_desired\<close> asks
  \<^verbatim>\<open>transition_state\<close> for the step from opening to opening_stopped, which raises
  \<^verbatim>\<open>ValueError\<close> before \<^verbatim>\<open>__set_state\<close> is called: the handler ends with that
  exception and the door is never set to opening_stopped. The same holds of a door that is
  closing and closing_stopped. No reading of the outside world is needed for that, so the
  list of readings is arbitrary.
\<close>

theorem toggle_while_moving_raises:
  "toggle_state (Some State_opening) = Inr State_opening_stopped \<and>
   transition_state (Some State_opening) (Some State_opening_stopped) = Inl ValueError \<and>
   toggle es (d\<lparr>state := Some State_opening\<rparr>) = Some (Inl ValueError) \<and>
   toggle_state (Some State_closing) = Inr State_closing_stopped \<and>
   transition_state (Some State_closing) (Some State_closing_stopped) = Inl ValueError \<and>
   toggle es (d\<lparr>state := Some State_closing\<rparr>) = Some (Inl ValueError)"
proof -
  have o: "set_desired es (d\<lparr>state := Some State_opening\<rparr>) (Some State_opening_stopped) =
      Some (Inl ValueError)"
    by (subst set_desired.simps) (simp add: transition_state_def)
  have c: "set_desired es (d\<lparr>state := Some State_closing\<rparr>) (Some State_closing_stopped) =
      Some (Inl ValueError)"
    by (subst set_desired.simps) (simp add: transition_state_def)
  show ?thesis
    using o c by (simp add: toggle_def toggle_state_def transition_state_def)
qed

subsection \<open>The handler of the upper limit switch\<close>

text \<open>
  C2. What \<^verbatim>\<open>__set_open\<close> does on a door that is closing: the comparison names
  \<^verbatim>\<open>CLOSING_THESHOLD\<close>, which the module does not bind, so the handler raises
  \<^verbatim>\<open>NameError\<close> whatever the clock and \<^verbatim>\<open>closing_started\<close> are; it neither sets the
  state to error after the two seconds nor returns quietly before them. On a door in any
  other state the state becomes open.
\<close>

theorem set_open_while_closing_raises:
  "set_open e (d\<lparr>state := Some State_closing\<rparr>) = Inl NameError \<and>
   set_open \<lparr>datetime_now = 2100000, upper_is_pressed = True, lower_is_pressed = False\<rparr>
     (Door_defaults\<lparr>state := Some State_closing, closing_started := Some 0\<rparr>) = Inl NameError \<and>
   set_open \<lparr>datetime_now = 500000, upper_is_pressed = True, lower_is_pressed = False\<rparr>
     (Door_defaults\<lparr>state := Some State_closing, closing_started := Some 0\<rparr>) = Inl NameError \<and>
   (\<exists>d'. set_open e (d\<lparr>state := Some State_open\<rparr>) = Inr d' \<and> state d' = Some State_open) \<and>
   (\<exists>d'. set_open e (d\<lparr>state := Some State_opening\<rparr>) = Inr d' \<and> state d' = Some State_open)"
proof -
  have raises: "set_open e' d0 = Inl NameError" if "state d0 = Some State_closing" for e' d0
    using that by (simp add: set_open_def CLOSING_THESHOLD_def)
  have still: "\<not> is_moving (Some State_open)"
    by (simp add: is_moving_def)
  have lands: "\<exists>d'. set_open e d0 = Inr d' \<and> state d' = Some State_open"
    if "state d0 \<noteq> Some State_closing" for d0
    using set_state_lands [OF still, of e d0] that by (auto simp: set_open_def)
  show ?thesis
    using lands [of "d\<lparr>state := Some State_open\<rparr>"]
      lands [of "d\<lparr>state := Some State_opening\<rparr>"]
    by (simp add: raises)
qed

end
